theory Spec2Isabelle
  imports Main "HOL-Library.Word" "HOL-Library.AList"
begin

unbundle bit_operations_syntax

section \<open>Errors\<close>

type_synonym byte = "8 word"
type_synonym int64 = "64 word"

text \<open>
  The error values of package \<open>errors\<close> that the proxy package returns, the wrapper
  \<open>WrapError\<close> (\<open>fmt.Errorf("%s: %w", message, err)\<close>), the errors made in place with
  \<open>errors.New\<close>, and the errors of the standard library that the dialers pass on.
  \<open>Blocked\<close> is not an error value of the program: it marks a blocking read that never
  returns (a silent peer and no deadline). \<open>PanicIndex\<close> marks a run-time panic on an
  index out of range.
\<close>

datatype error =
    ErrUnsupportedProxy
  | ErrProxyDialFailed
  | ErrHTTPProxyAuth
  | ErrProxyProtocol
  | ErrProxyNegotiation
  | ErrConnectionTimeout
  | ErrTLSHandshake
  | ErrTLSConfig
  | ErrContextCanceled
  | ErrContextDeadlineExceeded
  | ErrSOCKSVersionNotSupported
  | ErrSOCKSAddressTypeNotSupported
  | ErrSOCKSNetworkNotSupported
  | ErrSOCKS4RequestRejected
  | ErrSOCKS4IdentdFailed
  | ErrSOCKS4IdentdMismatch
  | ErrSOCKSAuthFailed
  | ErrSOCKSConnectFailed
  | ErrSOCKSProxyUnreachable
  | WrapError error string
  | ErrorsNew string
  | EOF
  | ErrUnexpectedEOF
  | ErrTimeout
  | ErrNet string
  | Blocked
  | PanicIndex

fun Error :: "error \<Rightarrow> string" where
  "Error ErrUnsupportedProxy = ''unsupported proxy type''"
| "Error ErrProxyDialFailed = ''proxy dial failed''"
| "Error ErrHTTPProxyAuth = ''http proxy authentication failed''"
| "Error ErrProxyProtocol = ''proxy protocol error''"
| "Error ErrProxyNegotiation = ''proxy negotiation failed''"
| "Error ErrConnectionTimeout = ''connection timeout''"
| "Error ErrTLSHandshake = ''TLS handshake failed''"
| "Error ErrTLSConfig = ''TLS configuration is missing''"
| "Error ErrContextCanceled = ''operation canceled by context''"
| "Error ErrContextDeadlineExceeded = ''operation deadline exceeded''"
| "Error ErrSOCKSVersionNotSupported = ''socks: unsupported protocol version''"
| "Error ErrSOCKSAddressTypeNotSupported = ''socks: unsupported address type''"
| "Error ErrSOCKSNetworkNotSupported = ''socks: unsupported network type''"
| "Error ErrSOCKS4RequestRejected = ''socks4 request rejected''"
| "Error ErrSOCKS4IdentdFailed = ''socks4 identd failed''"
| "Error ErrSOCKS4IdentdMismatch = ''socks4 identd user mismatch''"
| "Error ErrSOCKSAuthFailed = ''socks: authentication failed''"
| "Error ErrSOCKSConnectFailed = ''socks: connect to target failed''"
| "Error ErrSOCKSProxyUnreachable = ''socks: proxy server unreachable''"
| "Error (WrapError err message) = message @ '': '' @ Error err"
| "Error (ErrorsNew s) = s"
| "Error EOF = ''EOF''"
| "Error ErrUnexpectedEOF = ''unexpected EOF''"
| "Error ErrTimeout = ''i/o timeout''"
| "Error (ErrNet s) = s"
| "Error Blocked = []"
| "Error PanicIndex = ''index out of range''"

text \<open>\<open>errors.Is\<close>: the chain made by \<open>%w\<close> is searched for the target.\<close>

fun Is :: "error \<Rightarrow> error \<Rightarrow> bool" where
  "Is (WrapError err message) target = (WrapError err message = target \<or> Is err target)"
| "Is err target = (err = target)"

section \<open>Connections\<close>

text \<open>
  A \<open>net.Conn\<close> is an object of the standard library; the program holds references to
  it. A connection is modelled by what its peer does, given as a script:
  \<^item> \<open>rbuf\<close>: the bytes the peer has sent that were not read yet;
  \<^item> \<open>rend\<close>: what a read meets once these bytes are used up: a silent peer
    (the read ends with a timeout at the read deadline, and never without one), the
    end of the stream, or another error;
  \<^item> \<open>wfail\<close>: \<open>Some k\<close> when the write after \<open>k\<close> more successful ones fails;
  \<^item> \<open>written\<close>: the payloads of the successful writes, the oldest first;
  \<^item> \<open>nodeadline\<close>: the deadline setters return an error (as those of \<open>http2Conn\<close> do);
  \<^item> \<open>rdeadline\<close>, \<open>wdeadline\<close>: the deadlines set (\<open>None\<close> is the zero time);
  \<^item> \<open>closes\<close>: how many times \<open>Close\<close> was called.
\<close>

datatype rdend = Silent | PeerClosed | Reset

record sock =
  rbuf :: "byte list"
  rend :: rdend
  wfail :: "nat option"
  written :: "byte list list"
  nodeadline :: bool
  rdeadline :: "int option"
  wdeadline :: "int option"
  closes :: nat

definition rend_error :: "sock \<Rightarrow> error" where
  "rend_error s =
     (case rend s of
        PeerClosed \<Rightarrow> EOF
      | Reset \<Rightarrow> ErrNet ''connection reset by peer''
      | Silent \<Rightarrow> (if rdeadline s \<noteq> None then ErrTimeout else Blocked))"

text \<open>\<open>Timeout()\<close> of a \<open>net.Error\<close>.\<close>

definition is_Timeout :: "error \<Rightarrow> bool" where
  "is_Timeout e = (e = ErrTimeout)"

definition sock_SetReadDeadline :: "int option \<Rightarrow> sock \<Rightarrow> error option \<times> sock" where
  "sock_SetReadDeadline t s =
     (if nodeadline s then (Some (ErrNet ''set http2: unsupported proxy type''), s)
      else if closes s > 0 then (Some (ErrNet ''use of closed network connection''), s)
      else (None, s\<lparr>rdeadline := t\<rparr>))"

definition sock_SetDeadline :: "int option \<Rightarrow> sock \<Rightarrow> error option \<times> sock" where
  "sock_SetDeadline t s =
     (if nodeadline s then (Some (ErrNet ''set http2: unsupported proxy type''), s)
      else if closes s > 0 then (Some (ErrNet ''use of closed network connection''), s)
      else (None, s\<lparr>rdeadline := t, wdeadline := t\<rparr>))"

text \<open>\<open>conn.Read(buf)\<close> with a buffer of one byte.\<close>

definition sock_Read1 :: "sock \<Rightarrow> (error + byte) \<times> sock" where
  "sock_Read1 s =
     (if closes s > 0 then (Inl (ErrNet ''use of closed network connection''), s)
      else (case rbuf s of
              b # bs \<Rightarrow> (Inr b, s\<lparr>rbuf := bs\<rparr>)
            | [] \<Rightarrow> (Inl (rend_error s), s)))"

text \<open>\<open>io.ReadFull(conn, buf)\<close> with a buffer of \<open>n\<close> bytes.\<close>

definition sock_ReadFull :: "nat \<Rightarrow> sock \<Rightarrow> (error + byte list) \<times> sock" where
  "sock_ReadFull n s =
     (if closes s > 0 then (Inl (ErrNet ''use of closed network connection''), s)
      else if n \<le> length (rbuf s) then (Inr (take n (rbuf s)), s\<lparr>rbuf := drop n (rbuf s)\<rparr>)
      else (Inl (if rbuf s \<noteq> [] \<and> rend s = PeerClosed then ErrUnexpectedEOF else rend_error s),
            s\<lparr>rbuf := []\<rparr>))"

text \<open>\<open>io.CopyN(io.Discard, conn, n)\<close>.\<close>

definition sock_Discard :: "nat \<Rightarrow> sock \<Rightarrow> error option \<times> sock" where
  "sock_Discard n s =
     (if closes s > 0 then (Some (ErrNet ''use of closed network connection''), s)
      else if n \<le> length (rbuf s) then (None, s\<lparr>rbuf := drop n (rbuf s)\<rparr>)
      else (Some (rend_error s), s\<lparr>rbuf := []\<rparr>))"

definition sock_Write :: "byte list \<Rightarrow> sock \<Rightarrow> error option \<times> sock" where
  "sock_Write bs s =
     (if closes s > 0 then (Some (ErrNet ''use of closed network connection''), s)
      else (case wfail s of
              Some 0 \<Rightarrow> (Some (ErrNet ''broken pipe''), s)
            | Some (Suc k) \<Rightarrow> (None, s\<lparr>wfail := Some k, written := written s @ [bs]\<rparr>)
            | None \<Rightarrow> (None, s\<lparr>written := written s @ [bs]\<rparr>)))"

definition sock_Close :: "sock \<Rightarrow> sock" where
  "sock_Close s = s\<lparr>closes := Suc (closes s)\<rparr>"

section \<open>The metrics collector\<close>

record MetricsCollector =
  activeConns :: int64
  totalConns :: int64
  failedConns :: int64
  totalDuration :: int64
  errorTypes :: "(string \<times> int64) list"
  protocolStats :: "(string \<times> int64) list"

definition RecordConnection :: "int64 \<Rightarrow> MetricsCollector \<Rightarrow> MetricsCollector" where
  "RecordConnection duration mc =
     mc\<lparr>totalConns := totalConns mc + 1, totalDuration := totalDuration mc + duration\<rparr>"

definition RecordFailure :: "error \<Rightarrow> MetricsCollector \<Rightarrow> MetricsCollector" where
  "RecordFailure err mc = mc\<lparr>failedConns := failedConns mc + 1\<rparr>"

definition IncrementActiveConnections :: "MetricsCollector \<Rightarrow> MetricsCollector" where
  "IncrementActiveConnections mc = mc\<lparr>activeConns := activeConns mc + 1\<rparr>"

definition DecrementActiveConnections :: "MetricsCollector \<Rightarrow> MetricsCollector" where
  "DecrementActiveConnections mc = mc\<lparr>activeConns := activeConns mc - 1\<rparr>"

definition RecordLatency :: "int64 \<Rightarrow> MetricsCollector \<Rightarrow> MetricsCollector" where
  "RecordLatency d mc = mc\<lparr>totalDuration := totalDuration mc + d\<rparr>"

definition bump_count :: "string \<Rightarrow> (string \<times> int64) list \<Rightarrow> (string \<times> int64) list" where
  "bump_count k m =
     (case map_of m k of
        Some val \<Rightarrow> AList.update k (val + 1) m
      | None \<Rightarrow> AList.update k 1 m)"

text \<open>
  \<open>reflect.TypeOf(err).String()\<close> of an error made by \<open>errors.New\<close> or \<open>fmt.Errorf\<close>.
\<close>

definition TypeOf :: "error \<Rightarrow> string" where
  "TypeOf err = (case err of WrapError e m \<Rightarrow> ''*fmt.wrapError'' | _ \<Rightarrow> ''*errors.errorString'')"

definition RecordErrorType :: "error \<Rightarrow> MetricsCollector \<Rightarrow> MetricsCollector" where
  "RecordErrorType err mc = mc\<lparr>errorTypes := bump_count (TypeOf err) (errorTypes mc)\<rparr>"

definition RecordProtocol :: "string \<Rightarrow> MetricsCollector \<Rightarrow> MetricsCollector" where
  "RecordProtocol proto mc = mc\<lparr>protocolStats := bump_count proto (protocolStats mc)\<rparr>"

section \<open>The state of the program\<close>

text \<open>
  The connection pool, with the fields of \<open>ConnPool\<close>. The Go map \<open>idle\<close> is an
  association list; a key that is absent reads as the empty slice, as in Go.
\<close>

record connWithExpiry =
  conn :: nat
  expiryTime :: int

record ConnPool =
  idle :: "(string \<times> connWithExpiry list) list"
  active :: int64
  maxIdle :: int64
  maxActive :: int64
  idleTimeout :: int

text \<open>
  The state of the network: the connections by reference (\<open>socks\<close>, with \<open>nsocks\<close> the
  next fresh reference), and the number of socket connects attempted so far.
\<close>

record netstate =
  socks :: "nat \<Rightarrow> sock"
  nsocks :: nat
  attempts :: nat

text \<open>
  The state of the program: the network, the metrics collector that the pool, the
  dialers and the manager share (\<open>None\<close> is the nil pointer), and the pool.
  \<open>nil_deref\<close> records a method call through the nil collector, which panics.
\<close>

record world =
  net :: netstate
  metrics :: "MetricsCollector option"
  nil_deref :: bool
  pool :: ConnPool

definition mcall :: "(MetricsCollector \<Rightarrow> MetricsCollector) \<Rightarrow> world \<Rightarrow> world" where
  "mcall f w =
     (case metrics w of
        None \<Rightarrow> w\<lparr>nil_deref := True\<rparr>
      | Some mc \<Rightarrow> w\<lparr>metrics := Some (f mc)\<rparr>)"

text \<open>The state with the collector taken away.\<close>

definition erase :: "world \<Rightarrow> world" where
  "erase w = w\<lparr>metrics := None\<rparr>"

text \<open>A step on the network, as a step of the program.\<close>

definition in_net :: "(netstate \<Rightarrow> 'a \<times> netstate) \<Rightarrow> world \<Rightarrow> 'a \<times> world" where
  "in_net f w = (case f (net w) of (r, n) \<Rightarrow> (r, w\<lparr>net := n\<rparr>))"

definition on_sock :: "nat \<Rightarrow> (sock \<Rightarrow> 'a \<times> sock) \<Rightarrow> netstate \<Rightarrow> 'a \<times> netstate" where
  "on_sock c f n = (case f (socks n c) of (r, s) \<Rightarrow> (r, n\<lparr>socks := (socks n)(c := s)\<rparr>))"

definition Close :: "nat \<Rightarrow> netstate \<Rightarrow> netstate" where
  "Close c n = n\<lparr>socks := (socks n)(c := sock_Close (socks n c))\<rparr>"

definition close_conn :: "nat \<Rightarrow> world \<Rightarrow> world" where
  "close_conn c w = w\<lparr>net := Close c (net w)\<rparr>"

section \<open>The liveness probe\<close>

text \<open>
  \<open>isConnAlive\<close>; \<open>now\<close> is the reading of the clock, in nanoseconds, and one second is
  added for the deadline.
\<close>

definition second :: int where
  "second = 1000000000"

definition sock_isConnAlive :: "int \<Rightarrow> sock \<Rightarrow> bool \<times> sock" where
  "sock_isConnAlive now s =
     (case sock_SetReadDeadline (Some (now + second)) s of
        (Some err, s1) \<Rightarrow> (False, s1)
      | (None, s1) \<Rightarrow>
          (case sock_Read1 s1 of
             (Inl err, s2) \<Rightarrow>
               if err = EOF then (False, s2)
               else if is_Timeout err then (True, snd (sock_SetReadDeadline None s2))
               else (False, s2)
           | (Inr b, s2) \<Rightarrow> (True, snd (sock_SetReadDeadline None s2))))"

definition isConnAlive :: "int \<Rightarrow> nat option \<Rightarrow> netstate \<Rightarrow> bool \<times> netstate" where
  "isConnAlive now c n =
     (case c of
        None \<Rightarrow> (False, n)
      | Some c \<Rightarrow> on_sock c (sock_isConnAlive now) n)"

section \<open>The connection pool\<close>

definition idle_of :: "world \<Rightarrow> string \<Rightarrow> connWithExpiry list" where
  "idle_of w key = (case map_of (idle (pool w)) key of None \<Rightarrow> [] | Some conns \<Rightarrow> conns)"

definition set_idle :: "string \<Rightarrow> connWithExpiry list \<Rightarrow> world \<Rightarrow> world" where
  "set_idle key conns w = w\<lparr>pool := (pool w)\<lparr>idle := AList.update key conns (idle (pool w))\<rparr>\<rparr>"

definition delete_idle :: "string \<Rightarrow> world \<Rightarrow> world" where
  "delete_idle key w = w\<lparr>pool := (pool w)\<lparr>idle := AList.delete key (idle (pool w))\<rparr>\<rparr>"

definition add_active :: "int64 \<Rightarrow> world \<Rightarrow> world" where
  "add_active d w = w\<lparr>pool := (pool w)\<lparr>active := active (pool w) + d\<rparr>\<rparr>"

text \<open>
  Go slices share their backing array. \<open>append(s[:index], s[index+1:]...)\<close> on a slice
  \<open>s\<close> of length \<open>m\<close> never needs more room than the array has, so it works in place:
  the cells \<open>index+1 .. m-1\<close> are copied one cell down, the cell \<open>m-1\<close> and the cells after
  it keep what they held, and the result is a slice of length \<open>m-1\<close> over the same array.
  \<open>slice_delete arr m index\<close> is the array after this, for the array \<open>arr\<close> before.
\<close>

definition slice_delete :: "'a list \<Rightarrow> nat \<Rightarrow> nat \<Rightarrow> 'a list" where
  "slice_delete arr m index =
     take index arr @ take (m - 1 - index) (drop (Suc index) arr) @ drop (m - 1) arr"

text \<open>
  \<open>removeConn\<close>: \<open>None\<close> is the panic of \<open>conns[index]\<close> with the index out of range.
\<close>

definition removeConn :: "string \<Rightarrow> nat \<Rightarrow> world \<Rightarrow> world option" where
  "removeConn key index w =
     (let conns = idle_of w key in
      if index < length conns
      then Some (close_conn (conn (conns ! index))
                  (set_idle key (take index conns @ drop (Suc index) conns) w))
      else None)"

text \<open>
  The loop of \<open>Get\<close>, \<open>for i := len(conns) - 1; i >= 0; i--\<close>; the second argument is
  \<open>i + 1\<close>. The local variable \<open>conns\<close> is a slice of fixed length over the array that
  \<open>p.idle[key]\<close> uses too: \<open>arr\<close> holds the cells that \<open>conns\<close> sees, and each
  \<open>removeConn\<close> writes to them as \<open>slice_delete\<close> says. The readings of the clock
  during one call are taken to be one instant, \<open>now\<close>.
\<close>

fun scan :: "int \<Rightarrow> string \<Rightarrow> nat \<Rightarrow> connWithExpiry list \<Rightarrow> world \<Rightarrow> (error + nat option) \<times> world" where
  "scan now key 0 arr w = (Inr None, w)"
| "scan now key (Suc i) arr w =
     (let connExp = arr ! i in
      if now > expiryTime connExp then
        (case removeConn key i w of
           None \<Rightarrow> (Inl PanicIndex, w)
         | Some w1 \<Rightarrow> scan now key i (slice_delete arr (length (idle_of w key)) i) w1)
      else
        (case in_net (isConnAlive now (Some (conn connExp))) w of
           (True, w1) \<Rightarrow>
             (let w2 = set_idle key (take i arr @ drop (Suc i) arr) w1;
                  w3 = add_active 1 w2;
                  w4 = (if metrics w3 \<noteq> None then mcall IncrementActiveConnections w3 else w3);
                  w5 = add_active 1 w4;
                  w6 = (if metrics w5 \<noteq> None then mcall (RecordConnection 0) w5 else w5)
              in (Inr (Some (conn connExp)), w6))
         | (False, w1) \<Rightarrow>
             (case removeConn key i w1 of
                None \<Rightarrow> (Inl PanicIndex, w1)
              | Some w2 \<Rightarrow> scan now key i (slice_delete arr (length (idle_of w1 key)) i) w2)))"

text \<open>\<open>Get\<close>: \<open>Inr None\<close> is the result \<open>(nil, nil)\<close>.\<close>

definition Get :: "int \<Rightarrow> string \<Rightarrow> string \<Rightarrow> world \<Rightarrow> (error + nat option) \<times> world" where
  "Get now network addr w =
     (let key = network @ '':'' @ addr in
      if sint (maxActive (pool w)) \<le> sint (active (pool w)) then
        (Inl (ErrorsNew ''connection pool: max active connections reached''),
         if metrics w \<noteq> None
         then mcall (RecordErrorType
                (ErrorsNew ''connection pool: max active connections reached'')) w
         else w)
      else
        (let conns = idle_of w key in
         if length conns > 0 then scan now key (length conns) conns w
         else (Inr None, w)))"

definition Put :: "int \<Rightarrow> string \<Rightarrow> string \<Rightarrow> nat option \<Rightarrow> world \<Rightarrow> world" where
  "Put now network addr c w =
     (case c of
        None \<Rightarrow> w
      | Some c \<Rightarrow>
          (let key = network @ '':'' @ addr;
               conns = idle_of w key in
           if sint (maxIdle (pool w)) \<le> int (length conns) then
             (let w1 = close_conn c w;
                  w2 = add_active (- 1) w1
              in if metrics w2 \<noteq> None then mcall DecrementActiveConnections w2 else w2)
           else
             (let w1 = set_idle key
                         (conns @ [\<lparr>conn = c, expiryTime = now + idleTimeout (pool w)\<rparr>]) w;
                  w2 = add_active (- 1) w1
              in if metrics w2 \<noteq> None then mcall DecrementActiveConnections w2 else w2)))"







text \<open>
  \<open>poolConn\<close>, the wrapper handed to the caller, with its fields \<open>Conn\<close>, \<open>network\<close>
  and \<open>addr\<close>; \<open>once\<close> is the state of its \<open>sync.Once\<close>. Its pool is the pool of the
  state.
\<close>

record poolConn =
  Conn :: nat
  pc_network :: string
  pc_addr :: string
  once :: bool



section \<open>The environment of the dialers\<close>

text \<open>
  What the dialers take from outside the repository: the functions of the standard
  library that parse addresses, and the network.
  \<^item> \<open>SplitHostPort\<close>, \<open>Atoi\<close>, \<open>ParseIP\<close>, \<open>ResolveUDPAddr\<close>: \<open>net.SplitHostPort\<close>,
    \<open>strconv.Atoi\<close>, \<open>net.ParseIP\<close> (\<open>None\<close> is nil) and \<open>net.ResolveUDPAddr\<close>;
  \<^item> \<open>connect\<close>: what a TCP connect to an address gives, an error or a new connection
    with the script of its peer;
  \<^item> \<open>Handshake\<close>: the TLS handshake on a connection;
  \<^item> \<open>RequestBytes\<close>: the bytes that \<open>req.Write\<close> sends for a CONNECT request to a
    target, with the credentials of \<open>SetBasicAuth\<close> if any;
  \<^item> \<open>ReadResponse\<close>: \<open>http.ReadResponse\<close> on the bytes received;
  \<^item> \<open>NewRequest\<close>, \<open>ClientDo\<close>: \<open>http.NewRequestWithContext\<close> and the round trip of the
    HTTP/2 client, which gives the status code, the status text and the response body
    as a stream;
  \<^item> \<open>ListenUDP\<close>: \<open>net.ListenUDP\<close>.
\<close>

datatype response = Parsed int string "byte list" | Malformed error | Incomplete

record env =
  SplitHostPort :: "string \<Rightarrow> error + string \<times> string"
  Atoi :: "string \<Rightarrow> error + int"
  ParseIP :: "string \<Rightarrow> byte list option"
  ResolveUDPAddr :: "string \<Rightarrow> string \<Rightarrow> error + byte list \<times> int"
  connect :: "string \<Rightarrow> error + sock"
  Handshake :: "sock \<Rightarrow> error + sock"
  RequestBytes :: "string \<Rightarrow> (string \<times> string) option \<Rightarrow> byte list"
  ReadResponse :: "byte list \<Rightarrow> response"
  NewRequest :: "string \<Rightarrow> error option"
  ClientDo :: "string \<Rightarrow> string \<Rightarrow> (string \<times> string) option \<Rightarrow> error + int \<times> string \<times> sock"
  ListenUDP :: "string \<Rightarrow> error + sock"

text \<open>
  A context: \<open>Err\<close> is \<open>ctx.Err()\<close> (\<open>NotDone\<close> is nil, and then \<open>ctx.Done()\<close> is open),
  \<open>Deadline\<close> is \<open>ctx.Deadline()\<close>.
\<close>

datatype ctx_err = NotDone | Canceled | DeadlineExceeded

record ctx =
  Err :: ctx_err
  Deadline :: "int option"

text \<open>
  \<open>C.ProxyType\<close> is a string type of package \<open>config\<close>; its constants are the
  constructors, and \<open>OtherType\<close> is any other string.
\<close>

datatype ProxyType = Direct | HTTP | HTTPS | HTTP2 | SOCKS4 | SOCKS5 | OtherType string

text \<open>A TCP connect: one more attempt, and a new reference when it succeeds.\<close>

definition dial :: "env \<Rightarrow> string \<Rightarrow> netstate \<Rightarrow> (error + nat) \<times> netstate" where
  "dial e a w =
     (case connect e a of
        Inl err \<Rightarrow> (Inl err, w\<lparr>attempts := Suc (attempts w)\<rparr>)
      | Inr s \<Rightarrow> (Inr (nsocks w),
                  w\<lparr>socks := (socks w)(nsocks w := s), nsocks := Suc (nsocks w),
                     attempts := Suc (attempts w)\<rparr>))"

definition bytes :: "string \<Rightarrow> byte list" where
  "bytes s = map of_char s"

text \<open>\<open>ip.To4()\<close> and \<open>ip.To16()\<close> of \<open>net.IP\<close>; nil is \<open>None\<close>, and the empty list for \<open>To16\<close>.\<close>

definition To4 :: "byte list \<Rightarrow> byte list option" where
  "To4 ip =
     (if length ip = 4 then Some ip
      else if length ip = 16 \<and> take 10 ip = replicate 10 0 \<and> ip ! 10 = 0xff \<and> ip ! 11 = 0xff
      then Some (drop 12 ip)
      else None)"

definition To16 :: "byte list \<Rightarrow> byte list" where
  "To16 ip =
     (if length ip = 4 then replicate 10 0 @ [0xff, 0xff] @ ip
      else if length ip = 16 then ip
      else [])"

text \<open>\<open>binary.BigEndian.PutUint16\<close>.\<close>

definition PutUint16 :: "16 word \<Rightarrow> byte list" where
  "PutUint16 v = [ucast (drop_bit 8 v), ucast v]"

section \<open>The SOCKS dialer\<close>

record SOCKSConfig =
  User :: string
  Pass :: string
  EnableUDP :: bool

record SocksDialer =
  proxyURL :: string
  proxyType :: ProxyType
  Config :: SOCKSConfig

definition set_ctx_deadline :: "ctx \<Rightarrow> nat \<Rightarrow> netstate \<Rightarrow> netstate" where
  "set_ctx_deadline c proxyConn w =
     (case Deadline c of
        Some deadline \<Rightarrow> snd (on_sock proxyConn (sock_SetDeadline (Some deadline)) w)
      | None \<Rightarrow> w)"

definition socks4_error :: "byte \<Rightarrow> error" where
  "socks4_error b =
     (if b = 0x5B then ErrSOCKSConnectFailed
      else if b = 0x5C then ErrSOCKSAuthFailed
      else if b = 0x5D then ErrSOCKSAuthFailed
      else ErrSOCKSConnectFailed)"

definition dialSocks4 :: "env \<Rightarrow> SocksDialer \<Rightarrow> ctx \<Rightarrow> string \<Rightarrow> netstate \<Rightarrow> (error + nat) \<times> netstate" where
  "dialSocks4 e d c addr w =
     (case SplitHostPort e addr of
        Inl err \<Rightarrow> (Inl err, w)
      | Inr (host, port) \<Rightarrow>
     (case Atoi e port of
        Inl err \<Rightarrow> (Inl err, w)
      | Inr portNum \<Rightarrow>
     (case dial e (proxyURL d) w of
        (Inl err, w1) \<Rightarrow> (Inl ErrSOCKSProxyUnreachable, w1)
      | (Inr proxyConn, w1) \<Rightarrow>
     (let w2 = set_ctx_deadline c proxyConn w1;
          req = [0x04, 0x01, word_of_int (drop_bit 8 portNum), word_of_int (portNum AND 0xff)];
          ip = ParseIP e host
      in
     (case (case ip of
              Some ipb \<Rightarrow> (case To4 ipb of None \<Rightarrow> None | Some ip4 \<Rightarrow> Some (req @ ip4))
            | None \<Rightarrow> Some (req @ [0, 0, 0, 1])) of
        None \<Rightarrow> (Inl ErrSOCKSAddressTypeNotSupported, Close proxyConn w2)
      | Some req1 \<Rightarrow>
     (let req2 = (if User (Config d) \<noteq> [] then req1 @ bytes (User (Config d)) else req1) @ [0x00];
          req3 = (if ip = None then req2 @ bytes host @ [0x00] else req2)
      in
     (case on_sock proxyConn (sock_Write req3) w2 of
        (Some err, w3) \<Rightarrow> (Inl err, Close proxyConn w3)
      | (None, w3) \<Rightarrow>
     (case on_sock proxyConn (sock_ReadFull 8) w3 of
        (Inl err, w4) \<Rightarrow> (Inl err, Close proxyConn w4)
      | (Inr resp, w4) \<Rightarrow>
          if resp ! 1 \<noteq> 0x5A then (Inl (socks4_error (resp ! 1)), Close proxyConn w4)
          else (Inr proxyConn, w4)))))))))"

definition authenticateSocks5 :: "SocksDialer \<Rightarrow> nat \<Rightarrow> netstate \<Rightarrow> error option \<times> netstate" where
  "authenticateSocks5 d cn w =
     (let username = bytes (User (Config d));
          password = bytes (Pass (Config d));
          req = [0x01, of_nat (length username)] @ username
                  @ [of_nat (length password)] @ password
      in
     (case on_sock cn (sock_Write req) w of
        (Some err, w1) \<Rightarrow> (Some err, w1)
      | (None, w1) \<Rightarrow>
     (case on_sock cn (sock_ReadFull 2) w1 of
        (Inl err, w2) \<Rightarrow> (Some err, w2)
      | (Inr resp, w2) \<Rightarrow>
          if resp ! 1 \<noteq> 0x00 then (Some ErrSOCKSAuthFailed, w2) else (None, w2))))"

text \<open>The request frame of \<open>dialSocks5\<close>, from \<open>req := []byte{0x05, 0x01, 0x00}\<close> on.\<close>

definition socks5_request :: "env \<Rightarrow> string \<Rightarrow> int \<Rightarrow> byte list" where
  "socks5_request e host portNum =
     (let req = [0x05, 0x01, 0x00];
          req1 = (case ParseIP e host of
                    None \<Rightarrow> req @ [0x03] @ [of_nat (length host)] @ bytes host
                  | Some ip \<Rightarrow>
                      (case To4 ip of
                         Some ip4 \<Rightarrow> req @ [0x01] @ ip4
                       | None \<Rightarrow> req @ [0x04] @ To16 ip));
          portBytes = PutUint16 (word_of_int portNum)
      in req1 @ portBytes)"

text \<open>The \<open>switch resp[3]\<close> of \<open>dialSocks5\<close> that skips the bound address and port.\<close>

definition skip_bound :: "byte \<Rightarrow> nat \<Rightarrow> netstate \<Rightarrow> error option \<times> netstate" where
  "skip_bound atyp cn w =
     (if atyp = 0x01 then on_sock cn (sock_Discard (4 + 2)) w
      else if atyp = 0x03 then
        (case on_sock cn (sock_ReadFull 1) w of
           (Inl err, w1) \<Rightarrow> (Some err, w1)
         | (Inr len, w1) \<Rightarrow> on_sock cn (sock_Discard (unat (len ! 0) + 2)) w1)
      else if atyp = 0x04 then on_sock cn (sock_Discard (16 + 2)) w
      else (None, w))"

text \<open>
  \<open>dialSocks5\<close> in three parts: the negotiation of the method (the source from
  \<open>methods := []byte{0x00}\<close> to the call of \<open>authenticateSocks5\<close>), the request and
  its reply (from \<open>net.SplitHostPort\<close> to the skipping of the bound address), and the
  function itself. Every failure of the two parts closes the connection before it
  returns, which the function does here for both.
\<close>

definition socks5_negotiate :: "SocksDialer \<Rightarrow> nat \<Rightarrow> netstate \<Rightarrow> error option \<times> netstate" where
  "socks5_negotiate d proxyConn w =
     (let methods = (if User (Config d) \<noteq> [] \<and> Pass (Config d) \<noteq> [] then [0x02] else [0x00]);
          authReq = [0x05, of_nat (length methods)] @ methods
      in
     (case on_sock proxyConn (sock_Write authReq) w of
        (Some err, w1) \<Rightarrow> (Some err, w1)
      | (None, w1) \<Rightarrow>
     (case on_sock proxyConn (sock_ReadFull 2) w1 of
        (Inl err, w2) \<Rightarrow> (Some err, w2)
      | (Inr authResp, w2) \<Rightarrow>
          if authResp ! 0 \<noteq> 0x05 then (Some ErrSOCKSVersionNotSupported, w2)
          else if authResp ! 1 = 0x02 then authenticateSocks5 d proxyConn w2
          else (None, w2))))"

definition socks5_connect :: "env \<Rightarrow> string \<Rightarrow> nat \<Rightarrow> netstate \<Rightarrow> error option \<times> netstate" where
  "socks5_connect e addr proxyConn w =
     (case SplitHostPort e addr of
        Inl err \<Rightarrow> (Some err, w)
      | Inr (host, port) \<Rightarrow>
     (case Atoi e port of
        Inl err \<Rightarrow> (Some err, w)
      | Inr portNum \<Rightarrow>
     (case on_sock proxyConn (sock_Write (socks5_request e host portNum)) w of
        (Some err, w1) \<Rightarrow> (Some err, w1)
      | (None, w1) \<Rightarrow>
     (case on_sock proxyConn (sock_ReadFull 4) w1 of
        (Inl err, w2) \<Rightarrow> (Some err, w2)
      | (Inr resp, w2) \<Rightarrow>
          if resp ! 1 \<noteq> 0x00 then (Some ErrSOCKSConnectFailed, w2)
          else skip_bound (resp ! 3) proxyConn w2))))"

definition dialSocks5 :: "env \<Rightarrow> SocksDialer \<Rightarrow> ctx \<Rightarrow> string \<Rightarrow> netstate \<Rightarrow> (error + nat) \<times> netstate" where
  "dialSocks5 e d c addr w =
     (case dial e (proxyURL d) w of
        (Inl err, w1) \<Rightarrow> (Inl ErrSOCKSProxyUnreachable, w1)
      | (Inr proxyConn, w1) \<Rightarrow>
     (case socks5_negotiate d proxyConn (set_ctx_deadline c proxyConn w1) of
        (Some err, w2) \<Rightarrow> (Inl err, Close proxyConn w2)
      | (None, w2) \<Rightarrow>
     (case socks5_connect e addr proxyConn w2 of
        (Some err, w3) \<Rightarrow> (Inl err, Close proxyConn w3)
      | (None, w3) \<Rightarrow> (Inr proxyConn, w3))))"

text \<open>
  \<open>dialUDPSocks5\<close>, with two parts of it first: the \<open>switch resp[3]\<close> that reads the
  relay address, and the UDP ASSOCIATE request with its reply. Every failure after the
  connect closes the connection to the proxy, which the function does here. The result
  stands for the \<open>SocksUDPConn\<close>: the reference of its datagram socket.
\<close>

definition read_relay :: "byte \<Rightarrow> nat \<Rightarrow> netstate \<Rightarrow> error option \<times> netstate" where
  "read_relay atyp proxyConn w =
     (if atyp = 0x01 then
        (case on_sock proxyConn (sock_ReadFull (4 + 2)) w of
           (Inl err, w1) \<Rightarrow> (Some err, w1)
         | (Inr a, w1) \<Rightarrow> (None, w1))
      else if atyp = 0x04 then
        (case on_sock proxyConn (sock_ReadFull (16 + 2)) w of
           (Inl err, w1) \<Rightarrow> (Some err, w1)
         | (Inr a, w1) \<Rightarrow> (None, w1))
      else (Some ErrSOCKSAddressTypeNotSupported, w))"

definition udp_associate :: "nat \<Rightarrow> netstate \<Rightarrow> error option \<times> netstate" where
  "udp_associate proxyConn w =
     (case on_sock proxyConn
             (sock_Write [0x05, 0x03, 0x00, 0x01, 0x00, 0x00, 0x00, 0x00, 0x00, 0x00]) w of
        (Some err, w1) \<Rightarrow> (Some err, w1)
      | (None, w1) \<Rightarrow>
     (case on_sock proxyConn (sock_ReadFull 4) w1 of
        (Inl err, w2) \<Rightarrow> (Some err, w2)
      | (Inr resp, w2) \<Rightarrow>
          if resp ! 1 \<noteq> 0x00 then (Some ErrSOCKSConnectFailed, w2)
          else read_relay (resp ! 3) proxyConn w2))"

definition listen_udp :: "env \<Rightarrow> string \<Rightarrow> netstate \<Rightarrow> (error + nat) \<times> netstate" where
  "listen_udp e network w =
     (case ListenUDP e network of
        Inl err \<Rightarrow> (Inl err, w)
      | Inr u \<Rightarrow> (Inr (nsocks w), w\<lparr>socks := (socks w)(nsocks w := u), nsocks := Suc (nsocks w)\<rparr>))"

definition dialUDPSocks5 :: "env \<Rightarrow> SocksDialer \<Rightarrow> string \<Rightarrow> netstate \<Rightarrow> (error + nat) \<times> netstate" where
  "dialUDPSocks5 e d network w =
     (case dial e (proxyURL d) w of
        (Inl err, w1) \<Rightarrow> (Inl err, w1)
      | (Inr proxyConn, w1) \<Rightarrow>
     (case authenticateSocks5 d proxyConn w1 of
        (Some err, w2) \<Rightarrow> (Inl err, Close proxyConn w2)
      | (None, w2) \<Rightarrow>
     (case udp_associate proxyConn w2 of
        (Some err, w3) \<Rightarrow> (Inl err, Close proxyConn w3)
      | (None, w3) \<Rightarrow>
     (case listen_udp e network w3 of
        (Inl err, w4) \<Rightarrow> (Inl err, Close proxyConn w4)
      | (Inr u, w4) \<Rightarrow> (Inr u, w4)))))"

definition validateNetwork :: "SocksDialer \<Rightarrow> string \<Rightarrow> error option" where
  "validateNetwork d network =
     (if network = ''tcp'' \<or> network = ''tcp4'' \<or> network = ''tcp6'' then None
      else if network = ''udp'' \<or> network = ''udp4'' \<or> network = ''udp6'' then
        (if \<not> EnableUDP (Config d) then Some ErrSOCKSNetworkNotSupported else None)
      else Some ErrSOCKSNetworkNotSupported)"

definition dialWithTimeout :: "env \<Rightarrow> SocksDialer \<Rightarrow> ctx \<Rightarrow> string \<Rightarrow> netstate \<Rightarrow> (error + nat) \<times> netstate" where
  "dialWithTimeout e d c addr w =
     (case proxyType d of
        SOCKS4 \<Rightarrow> dialSocks4 e d c addr w
      | SOCKS5 \<Rightarrow> dialSocks5 e d c addr w
      | _ \<Rightarrow> (Inl ErrSOCKSVersionNotSupported, w))"

text \<open>
  The end of \<open>SocksDialer.DialContext\<close> and of \<open>HTTPProxyDialer.DialContext\<close>, from
  \<open>if err != nil\<close> on, for the result of the dial; \<open>elapsed\<close> is the reading
  \<open>time.Since(start)\<close>.
\<close>

definition dial_outcome :: "int64 \<Rightarrow> (error + nat) \<times> world \<Rightarrow> (error + nat) \<times> world" where
  "dial_outcome elapsed r =
     (case r of
        (Inl err, w1) \<Rightarrow>
          (Inl err, if metrics w1 \<noteq> None then mcall (RecordFailure err) w1 else w1)
      | (Inr cn, w1) \<Rightarrow>
          (Inr cn,
           if metrics w1 \<noteq> None
           then mcall (RecordConnection elapsed) (mcall IncrementActiveConnections w1)
           else w1))"

text \<open>\<open>SocksDialer.DialContext\<close>.\<close>

definition SocksDialer_DialContext :: "env \<Rightarrow> SocksDialer \<Rightarrow> ctx \<Rightarrow> string \<Rightarrow> string \<Rightarrow> int64 \<Rightarrow> world \<Rightarrow> (error + nat) \<times> world" where
  "SocksDialer_DialContext e d c network addr elapsed w =
     (let w0 = (if metrics w \<noteq> None then mcall (RecordConnection 0) w else w) in
      case validateNetwork d network of
        Some err \<Rightarrow> (Inl err, if metrics w0 \<noteq> None then mcall (RecordFailure err) w0 else w0)
      | None \<Rightarrow>
          if network = ''udp'' \<or> network = ''udp4'' \<or> network = ''udp6'' then
            (if proxyType d \<noteq> SOCKS5 then (Inl ErrSOCKSNetworkNotSupported, w0)
             else
               (case ResolveUDPAddr e network addr of
                  Inl err \<Rightarrow> (Inl err, w0)
                | Inr raddr \<Rightarrow> dial_outcome elapsed (in_net (dialUDPSocks5 e d network) w0)))
          else dial_outcome elapsed (in_net (dialWithTimeout e d c addr) w0))"

section \<open>The HTTP dialer\<close>

text \<open>
  \<open>DialContext\<close> of \<open>net.Dialer\<close>: with a context that is done it returns the error of
  the context and connects to nothing. A context does not change during a call.
\<close>

definition dial_ctx :: "env \<Rightarrow> ctx \<Rightarrow> string \<Rightarrow> netstate \<Rightarrow> (error + nat) \<times> netstate" where
  "dial_ctx e c a w =
     (case Err c of
        NotDone \<Rightarrow> dial e a w
      | Canceled \<Rightarrow> (Inl (ErrNet ''operation was canceled''), w)
      | DeadlineExceeded \<Rightarrow> (Inl ErrTimeout, w))"

record HTTPConfig =
  User :: string
  Pass :: string

text \<open>
  \<open>HTTPProxyDialer\<close>: \<open>proxyURL\<close> is \<open>d.proxyURL.Host\<close>, and \<open>tlsConfig\<close> says whether
  the pointer is not nil.
\<close>

record HTTPProxyDialer =
  proxyURL :: string
  proxyType :: ProxyType
  tlsConfig :: bool
  Config :: HTTPConfig

text \<open>
  Modelled from the README: the strings of the constants of package \<open>config\<close>, which is
  not among the sources.
\<close>

fun ProxyType_string :: "ProxyType \<Rightarrow> string" where
  "ProxyType_string Direct = ''direct''"
| "ProxyType_string HTTP = ''http''"
| "ProxyType_string HTTPS = ''https''"
| "ProxyType_string HTTP2 = ''http2''"
| "ProxyType_string SOCKS4 = ''socks4a''"
| "ProxyType_string SOCKS5 = ''socks5''"
| "ProxyType_string (OtherType s) = s"

definition BasicAuth :: "HTTPProxyDialer \<Rightarrow> (string \<times> string) option" where
  "BasicAuth d = (if User (Config d) \<noteq> [] then Some (User (Config d), Pass (Config d)) else None)"

definition sock_ReadResponse :: "env \<Rightarrow> sock \<Rightarrow> (error + int \<times> string) \<times> sock" where
  "sock_ReadResponse e s =
     (if closes s > 0 then (Inl (ErrNet ''use of closed network connection''), s)
      else (case ReadResponse e (rbuf s) of
              Parsed code status rest \<Rightarrow> (Inr (code, status), s\<lparr>rbuf := rest\<rparr>)
            | Malformed err \<Rightarrow> (Inl err, s\<lparr>rbuf := []\<rparr>)
            | Incomplete \<Rightarrow>
                (Inl (if rbuf s \<noteq> [] \<and> rend s = PeerClosed then ErrUnexpectedEOF
                      else rend_error s),
                 s\<lparr>rbuf := []\<rparr>)))"

definition sendConnectRequest :: "env \<Rightarrow> HTTPProxyDialer \<Rightarrow> nat \<Rightarrow> string \<Rightarrow> netstate \<Rightarrow> error option \<times> netstate" where
  "sendConnectRequest e d cn addr w =
     (case on_sock cn (sock_Write (RequestBytes e addr (BasicAuth d))) w of
        (Some err, w1) \<Rightarrow> (Some (WrapError ErrProxyNegotiation (Error err)), w1)
      | (None, w1) \<Rightarrow>
     (case on_sock cn (sock_ReadResponse e) w1 of
        (Inl err, w2) \<Rightarrow> (Some (WrapError ErrProxyNegotiation (Error err)), w2)
      | (Inr (StatusCode, Status), w2) \<Rightarrow>
          if StatusCode = 407 then (Some ErrHTTPProxyAuth, w2)
          else if StatusCode \<noteq> 200 then (Some (WrapError ErrProxyProtocol Status), w2)
          else (None, w2)))"

definition dialHTTP :: "env \<Rightarrow> HTTPProxyDialer \<Rightarrow> ctx \<Rightarrow> string \<Rightarrow> netstate \<Rightarrow> (error + nat) \<times> netstate" where
  "dialHTTP e d c addr w =
     (case dial_ctx e c (proxyURL d) w of
        (Inl err, w1) \<Rightarrow>
          (if Err c = DeadlineExceeded then (Inl ErrConnectionTimeout, w1)
           else (Inl (WrapError ErrProxyDialFailed (Error err)), w1))
      | (Inr cn, w1) \<Rightarrow>
     (case sendConnectRequest e d cn addr w1 of
        (Some err, w2) \<Rightarrow> (Inl err, Close cn w2)
      | (None, w2) \<Rightarrow> (Inr cn, w2)))"

text \<open>
  \<open>dialHTTPS\<close>. Its deferred function closes the connection if the variable \<open>err\<close> of
  the function is not nil; the two failures after the connect assign to variables
  \<open>err\<close> of their own \<open>if\<close> statements, so the function's \<open>err\<close> stays nil and the
  connection is not closed.
\<close>

definition dialHTTPS :: "env \<Rightarrow> HTTPProxyDialer \<Rightarrow> ctx \<Rightarrow> string \<Rightarrow> netstate \<Rightarrow> (error + nat) \<times> netstate" where
  "dialHTTPS e d c addr w =
     (if \<not> tlsConfig d then (Inl (WrapError ErrTLSConfig ''TLS configuration is missing''), w)
      else
     (case dial_ctx e c (proxyURL d) w of
        (Inl err, w1) \<Rightarrow>
          (if Err c = DeadlineExceeded then (Inl ErrConnectionTimeout, w1)
           else (Inl (WrapError ErrProxyDialFailed (Error err)), w1))
      | (Inr cn, w1) \<Rightarrow>
     (case Handshake e (socks w1 cn) of
        Inl err \<Rightarrow> (Inl (WrapError ErrTLSHandshake (Error err)), w1)
      | Inr s \<Rightarrow>
     (case sendConnectRequest e d cn addr (w1\<lparr>socks := (socks w1)(cn := s)\<rparr>) of
        (Some err, w3) \<Rightarrow> (Inl err, w3)
      | (None, w3) \<Rightarrow> (Inr cn, w3)))))"

text \<open>
  \<open>dialHTTP2\<close>. The round trip of the HTTP/2 client, with the connect and the TLS
  handshake of its transport, is one step of the environment; the \<open>http2Conn\<close> made from
  the response body is a new connection whose deadline setters return an error.
\<close>

definition dialHTTP2 :: "env \<Rightarrow> HTTPProxyDialer \<Rightarrow> ctx \<Rightarrow> string \<Rightarrow> netstate \<Rightarrow> (error + nat) \<times> netstate" where
  "dialHTTP2 e d c addr w =
     (case NewRequest e (''https://'' @ proxyURL d) of
        Some err \<Rightarrow> (Inl (WrapError ErrProxyNegotiation (Error err)), w)
      | None \<Rightarrow>
     (case ClientDo e (proxyURL d) addr (BasicAuth d) of
        Inl err \<Rightarrow>
          (Inl (WrapError ErrProxyNegotiation (Error err)), w\<lparr>attempts := Suc (attempts w)\<rparr>)
      | Inr (StatusCode, Status, body) \<Rightarrow>
          if StatusCode \<noteq> 200 then
            (Inl (WrapError ErrProxyProtocol Status), w\<lparr>attempts := Suc (attempts w)\<rparr>)
          else
            (Inr (nsocks w),
             w\<lparr>socks := (socks w)(nsocks w := body\<lparr>nodeadline := True\<rparr>),
                nsocks := Suc (nsocks w), attempts := Suc (attempts w)\<rparr>)))"

text \<open>\<open>HTTPProxyDialer.DialContext\<close>.\<close>

definition HTTPProxyDialer_DialContext :: "env \<Rightarrow> HTTPProxyDialer \<Rightarrow> ctx \<Rightarrow> string \<Rightarrow> string \<Rightarrow> int64 \<Rightarrow> world \<Rightarrow> (error + nat) \<times> world" where
  "HTTPProxyDialer_DialContext e d c network addr elapsed w =
     (let w0 = (if metrics w \<noteq> None then mcall (RecordConnection 0) w else w) in
      if network \<noteq> ''tcp'' \<and> network \<noteq> ''tcp4'' \<and> network \<noteq> ''tcp6'' then
        (Inl (WrapError ErrUnsupportedProxy (''unsupported network type: '' @ network)), w0)
      else if Err c \<noteq> NotDone then
        (if Err c = DeadlineExceeded then (Inl ErrContextDeadlineExceeded, w0)
         else (Inl ErrContextCanceled, w0))
      else
        (case proxyType d of
           HTTP \<Rightarrow> dial_outcome elapsed (in_net (dialHTTP e d c addr) w0)
         | HTTPS \<Rightarrow> dial_outcome elapsed (in_net (dialHTTPS e d c addr) w0)
         | HTTP2 \<Rightarrow> dial_outcome elapsed (in_net (dialHTTP2 e d c addr) w0)
         | _ \<Rightarrow> (Inl (WrapError ErrUnsupportedProxy (ProxyType_string (proxyType d))), w0)))"

section \<open>The proxy manager\<close>

text \<open>
  The dialers behind the interface \<open>ProxyDialer\<close>: a \<open>net.Dialer\<close> for a direct
  connection, or one of the two proxy dialers. In \<open>ProxyManager\<close>, \<open>MetricsEnable\<close> is
  \<open>pm.Config.MetricsEnable\<close>, \<open>dialer\<close> is \<open>None\<close> for nil, and the pool and the
  collector are those of the state.
\<close>

datatype ProxyDialer = NetDialer | HTTPDialer HTTPProxyDialer | SOCKSDialer SocksDialer

record ProxyManager =
  MetricsEnable :: bool
  dialer :: "ProxyDialer option"

definition ProxyDialer_DialContext :: "env \<Rightarrow> ProxyDialer \<Rightarrow> ctx \<Rightarrow> string \<Rightarrow> string \<Rightarrow> int64 \<Rightarrow> world \<Rightarrow> (error + nat) \<times> world" where
  "ProxyDialer_DialContext e dl c network addr elapsed w =
     (case dl of
        NetDialer \<Rightarrow> in_net (dial_ctx e c addr) w
      | HTTPDialer d \<Rightarrow> HTTPProxyDialer_DialContext e d c network addr elapsed w
      | SOCKSDialer d \<Rightarrow> SocksDialer_DialContext e d c network addr elapsed w)"

text \<open>
  \<open>ProxyManager.DialContext\<close>; \<open>now\<close> is the clock during \<open>pool.Get\<close>, and \<open>elapsed\<close>
  stands for each reading of \<open>time.Since\<close>.
\<close>

definition ProxyManager_DialContext :: "env \<Rightarrow> ProxyManager \<Rightarrow> ctx \<Rightarrow> string \<Rightarrow> string \<Rightarrow> int \<Rightarrow> int64 \<Rightarrow> world \<Rightarrow> (error + poolConn) \<times> world" where
  "ProxyManager_DialContext e pm c network addr now elapsed w =
     (let w0 = (if MetricsEnable pm \<and> metrics w \<noteq> None then mcall (RecordProtocol network) w
                else w)
      in
      case Get now network addr w0 of
        (Inr (Some cn), w1) \<Rightarrow>
          (Inr \<lparr>Conn = cn, pc_network = network, pc_addr = addr, once = False\<rparr>, w1)
      | (_, w1) \<Rightarrow>
          (case dialer pm of
             None \<Rightarrow> (Inl ErrUnsupportedProxy, w1)
           | Some dl \<Rightarrow>
               (case ProxyDialer_DialContext e dl c network addr elapsed w1 of
                  (Inl err, w2) \<Rightarrow>
                    (Inl err, if metrics w2 \<noteq> None then mcall (RecordFailure err) w2 else w2)
                | (Inr cn, w2) \<Rightarrow>
                    (Inr \<lparr>Conn = cn, pc_network = network, pc_addr = addr, once = False\<rparr>,
                     if MetricsEnable pm \<and> metrics w2 \<noteq> None
                     then mcall (RecordLatency elapsed) w2 else w2))))"

section \<open>An environment\<close>

























section \<open>Concrete states\<close>

text \<open>
  An open connection to a silent peer, a network that holds nothing but such
  connections, and a state with this network, no collector, and an empty pool with the
  given limits.
\<close>

definition quiet_sock :: sock where
  "quiet_sock = \<lparr>rbuf = [], rend = Silent, wfail = None, written = [], nodeadline = False,
     rdeadline = None, wdeadline = None, closes = 0\<rparr>"


definition net0 :: netstate where
  "net0 = \<lparr>socks = (\<lambda>c. quiet_sock), nsocks = 0, attempts = 0\<rparr>"





definition http_dialer :: "ProxyType \<Rightarrow> HTTPProxyDialer" where
  "http_dialer t =
     \<lparr>proxyURL = ''127.0.0.1:8080'', proxyType = t, tlsConfig = True,
      Config = \<lparr>User = [], Pass = []\<rparr>\<rparr>"

definition direct_manager :: ProxyManager where
  "direct_manager = \<lparr>MetricsEnable = False, dialer = Some NetDialer\<rparr>"

section \<open>Unfolding the definitions on concrete states\<close>




section \<open>Properties of the liveness probe\<close>

lemma sock_isConnAlive_alive_iff:
  "fst (sock_isConnAlive now s) \<longleftrightarrow>
     \<not> nodeadline s \<and> closes s = 0 \<and> (rbuf s \<noteq> [] \<or> rend s = Silent)"
  by (auto simp: sock_isConnAlive_def sock_SetReadDeadline_def sock_Read1_def rend_error_def
      is_Timeout_def split: list.splits rdend.splits)



lemma isConnAlive_other:
  "c' \<noteq> c \<Longrightarrow> socks (snd (isConnAlive now (Some c) n)) c' = socks n c'"
  by (auto simp: isConnAlive_def on_sock_def split: prod.splits)

text \<open>
  C10. On a connection whose read deadline can be set, the probe's read of one byte
  succeeds when the peer has already sent data: the connection is classified as alive,
  its deadline is cleared, and the byte is gone from the stream, so that whoever uses
  the connection next starts reading after it. When no data is there, a timeout alone
  classifies the connection as alive, with its deadline cleared; the end of the stream
  or any other read error classifies it as dead.
\<close>

theorem isConnAlive_probe:
  assumes "\<not> nodeadline (socks n c)" and "closes (socks n c) = 0"
  shows "(rbuf (socks n c) = b # bs \<longrightarrow>
            isConnAlive now (Some c) n =
              (True, n\<lparr>socks := (socks n)(c := (socks n c)\<lparr>rbuf := bs, rdeadline := None\<rparr>)\<rparr>)
            \<and> rbuf (socks (snd (isConnAlive now (Some c) n)) c) = bs)
       \<and> (rbuf (socks n c) = [] \<and> rend (socks n c) = Silent \<longrightarrow>
            isConnAlive now (Some c) n =
              (True, n\<lparr>socks := (socks n)(c := (socks n c)\<lparr>rdeadline := None\<rparr>)\<rparr>))
       \<and> (rbuf (socks n c) = [] \<and> rend (socks n c) \<noteq> Silent \<longrightarrow>
            \<not> fst (isConnAlive now (Some c) n))"
  using assms
  by (auto simp: isConnAlive_def on_sock_def sock_isConnAlive_def sock_SetReadDeadline_def
      sock_Read1_def rend_error_def is_Timeout_def
      split: rdend.splits)

theorem isConnAlive_probe_witness:
  "isConnAlive 5 (Some 0) (net0\<lparr>socks := (\<lambda>c. quiet_sock\<lparr>rbuf := [72, 73]\<rparr>)\<rparr>) =
     (True, net0\<lparr>socks := (\<lambda>c. quiet_sock\<lparr>rbuf := [72, 73]\<rparr>)
               (0 := quiet_sock\<lparr>rbuf := [73], rdeadline := None\<rparr>)\<rparr>)
   \<and> isConnAlive 5 (Some 0) net0 =
     (True, net0\<lparr>socks := (\<lambda>c. quiet_sock)(0 := quiet_sock\<lparr>rdeadline := None\<rparr>)\<rparr>)
   \<and> \<not> fst (isConnAlive 5 (Some 0) (net0\<lparr>socks := (\<lambda>c. quiet_sock\<lparr>rend := PeerClosed\<rparr>)\<rparr>))"
  using isConnAlive_probe [of "net0\<lparr>socks := (\<lambda>c. quiet_sock\<lparr>rbuf := [72, 73]\<rparr>)\<rparr>" 0 72 "[73]" 5]
    isConnAlive_probe [of net0 0 0 "[]" 5]
    isConnAlive_probe [of "net0\<lparr>socks := (\<lambda>c. quiet_sock\<lparr>rend := PeerClosed\<rparr>)\<rparr>" 0 0 "[]" 5]
  by (simp add: net0_def quiet_sock_def)

section \<open>Releasing a wrapped connection\<close>

lemma idle_of_set_idle: "idle_of (set_idle key v w) key = v"
  by (simp add: idle_of_def set_idle_def update_conv')





section \<open>The SOCKS5 request\<close>





lemma on_sock_eq:
  "f (socks n c) = (r, s') \<Longrightarrow> on_sock c f n = (r, n\<lparr>socks := (socks n)(c := s')\<rparr>)"
  by (simp add: on_sock_def)





section \<open>Running without a collector\<close>

lemma erase_reads [simp]:
  "net (erase w) = net w" "metrics (erase w) = None" "nil_deref (erase w) = nil_deref w"
  "pool (erase w) = pool w" "idle_of (erase w) key = idle_of w key"
  by (simp_all add: erase_def idle_of_def)

lemma mcall_Some [simp]:
  "metrics w = Some mc \<Longrightarrow> erase (mcall f w) = erase w"
  "metrics w = Some mc \<Longrightarrow> nil_deref (mcall f w) = nil_deref w"
  "metrics w = Some mc \<Longrightarrow> metrics (mcall f w) = Some (f mc)"
  by (auto simp: erase_def mcall_def)

lemma prims_metrics [simp]:
  "metrics (snd (in_net f w)) = metrics w"
  "metrics (close_conn c w) = metrics w"
  "metrics (set_idle key v w) = metrics w"
  "metrics (delete_idle key w) = metrics w"
  "metrics (add_active n w) = metrics w"
  by (auto simp: in_net_def close_conn_def set_idle_def delete_idle_def add_active_def
      split: prod.splits)

lemma prims_nil_deref [simp]:
  "nil_deref (snd (in_net f w)) = nil_deref w"
  "nil_deref (close_conn c w) = nil_deref w"
  "nil_deref (set_idle key v w) = nil_deref w"
  "nil_deref (delete_idle key w) = nil_deref w"
  "nil_deref (add_active n w) = nil_deref w"
  by (auto simp: in_net_def close_conn_def set_idle_def delete_idle_def add_active_def
      split: prod.splits)

lemma erase_prims [simp]:
  "fst (in_net f (erase w)) = fst (in_net f w)"
  "snd (in_net f (erase w)) = erase (snd (in_net f w))"
  "close_conn c (erase w) = erase (close_conn c w)"
  "set_idle key v (erase w) = erase (set_idle key v w)"
  "delete_idle key (erase w) = erase (delete_idle key w)"
  "add_active n (erase w) = erase (add_active n w)"
  by (auto simp: erase_def in_net_def close_conn_def set_idle_def delete_idle_def add_active_def
      split: prod.splits)

lemma mcall_add_active [simp]: "add_active n (mcall f w) = mcall f (add_active n w)"
  by (simp add: add_active_def mcall_def split: option.splits)

lemma scan_erase:
  "fst (scan now key n arr (erase w)) = fst (scan now key n arr w)
   \<and> snd (scan now key n arr (erase w)) = erase (snd (scan now key n arr w))"
proof (induction n arbitrary: arr w)
  case 0
  then show ?case by simp
next
  case (Suc n)
  show ?case
    by (auto simp: Suc Let_def removeConn_def split_beta bool.case_eq_if)
qed

lemma scan_nil_deref [simp]:
  "nil_deref (snd (scan now key n arr w)) = nil_deref w"
proof (induction n arbitrary: arr w)
  case 0
  then show ?case by simp
next
  case (Suc n)
  show ?case
    by (auto simp: Suc Let_def removeConn_def split_beta bool.case_eq_if)
qed

lemma Get_erase [simp]:
  "fst (Get now network addr (erase w)) = fst (Get now network addr w)"
  "snd (Get now network addr (erase w)) = erase (snd (Get now network addr w))"
  by (auto simp: Get_def Let_def scan_erase)

lemma Get_nil_deref [simp]: "nil_deref (snd (Get now network addr w)) = nil_deref w"
  by (auto simp: Get_def Let_def)

lemma Put_erase [simp]:
  "Put now network addr co (erase w) = erase (Put now network addr co w)"
  by (auto simp: Put_def Let_def split: option.splits)

lemma Put_nil_deref [simp]: "nil_deref (Put now network addr co w) = nil_deref w"
  by (auto simp: Put_def Let_def split: option.splits)

lemma guard_erase:
  "erase (if metrics w \<noteq> None then mcall f w else w) = erase w"
  "erase (if b \<and> metrics w \<noteq> None then mcall f w else w) = erase w"
  "erase (if metrics w \<noteq> None then mcall g (mcall f w) else w) = erase w"
  "nil_deref (if metrics w \<noteq> None then mcall f w else w) = nil_deref w"
  "nil_deref (if b \<and> metrics w \<noteq> None then mcall f w else w) = nil_deref w"
  "nil_deref (if metrics w \<noteq> None then mcall g (mcall f w) else w) = nil_deref w"
  by auto

lemma in_net_erase_eq:
  "erase w = erase w' \<Longrightarrow> fst (in_net f w) = fst (in_net f w')"
  "erase w = erase w' \<Longrightarrow> erase (snd (in_net f w)) = erase (snd (in_net f w'))"
  by (metis erase_prims(1), metis erase_prims(2))


lemma dial_outcome_erase [simp]:
  "fst (dial_outcome elapsed x) = fst x"
  "erase (snd (dial_outcome elapsed x)) = erase (snd x)"
  "nil_deref (snd (dial_outcome elapsed x)) = nil_deref (snd x)"
  "metrics (snd x) = None \<Longrightarrow> snd (dial_outcome elapsed x) = snd x"
  by (auto simp: dial_outcome_def split: prod.splits sum.splits)

lemma guard_fail_erase [simp]:
  "erase (if metrics w \<noteq> None then mcall f w else w) = erase w"
  "nil_deref (if metrics w \<noteq> None then mcall f w else w) = nil_deref w"
  by auto

lemma SocksDialer_DialContext_erase:
  "fst (SocksDialer_DialContext e d c network addr elapsed (erase w))
     = fst (SocksDialer_DialContext e d c network addr elapsed w)
   \<and> snd (SocksDialer_DialContext e d c network addr elapsed (erase w))
     = erase (snd (SocksDialer_DialContext e d c network addr elapsed w))
   \<and> nil_deref (snd (SocksDialer_DialContext e d c network addr elapsed w)) = nil_deref w"
proof -
  define udp where "udp \<longleftrightarrow> network = ''udp'' \<or> network = ''udp4'' \<or> network = ''udp6''"
  define B where "B = (\<lambda>w0.
      case validateNetwork d network of
        Some err \<Rightarrow> (Inl err, if metrics w0 \<noteq> None then mcall (RecordFailure err) w0 else w0)
      | None \<Rightarrow>
          if udp then
            (if SocksDialer.proxyType d \<noteq> SOCKS5 then (Inl ErrSOCKSNetworkNotSupported, w0)
             else
               (case ResolveUDPAddr e network addr of
                  Inl err \<Rightarrow> (Inl err, w0)
                | Inr raddr \<Rightarrow> dial_outcome elapsed (in_net (dialUDPSocks5 e d network) w0)))
          else dial_outcome elapsed (in_net (dialWithTimeout e d c addr) w0))"
  define w0 where "w0 = (if metrics w \<noteq> None then mcall (RecordConnection 0) w else w)"
  have e: "erase w = erase w0" and nd: "nil_deref w0 = nil_deref w"
    by (auto simp: w0_def)
  have F: "SocksDialer_DialContext e d c network addr elapsed v
      = B (if metrics v \<noteq> None then mcall (RecordConnection 0) v else v)" for v
    by (simp only: SocksDialer_DialContext_def B_def Let_def udp_def)
  have body: "fst (B (erase v)) = fst (B v) \<and> snd (B (erase v)) = erase (snd (B v))
      \<and> nil_deref (snd (B v)) = nil_deref v" for v
  proof (cases "validateNetwork d network")
    case (Some err)
    then show ?thesis by (auto simp: B_def)
  next
    case None
    show ?thesis
    proof (cases "ResolveUDPAddr e network addr")
      case (Inl err)
      then show ?thesis using None by (simp add: B_def)
    next
      case (Inr raddr)
      then show ?thesis using None by (simp add: B_def)
    qed
  qed
  have "SocksDialer_DialContext e d c network addr elapsed (erase w) = B (erase w0)"
    by (simp add: F e)
  moreover have "SocksDialer_DialContext e d c network addr elapsed w = B w0"
    by (simp only: F w0_def)
  ultimately show ?thesis
    using body [of w0] nd by simp
qed


lemma HTTPProxyDialer_DialContext_erase:
  "fst (HTTPProxyDialer_DialContext e d c network addr elapsed (erase w))
     = fst (HTTPProxyDialer_DialContext e d c network addr elapsed w)
   \<and> snd (HTTPProxyDialer_DialContext e d c network addr elapsed (erase w))
     = erase (snd (HTTPProxyDialer_DialContext e d c network addr elapsed w))
   \<and> nil_deref (snd (HTTPProxyDialer_DialContext e d c network addr elapsed w)) = nil_deref w"
proof -
  define tcp where "tcp \<longleftrightarrow> network \<noteq> ''tcp'' \<and> network \<noteq> ''tcp4'' \<and> network \<noteq> ''tcp6''"
  define B where "B = (\<lambda>w0.
      if tcp then
        (Inl (WrapError ErrUnsupportedProxy (''unsupported network type: '' @ network)), w0)
      else if Err c \<noteq> NotDone then
        (if Err c = DeadlineExceeded then (Inl ErrContextDeadlineExceeded, w0)
         else (Inl ErrContextCanceled, w0))
      else
        (case proxyType d of
           HTTP \<Rightarrow> dial_outcome elapsed (in_net (dialHTTP e d c addr) w0)
         | HTTPS \<Rightarrow> dial_outcome elapsed (in_net (dialHTTPS e d c addr) w0)
         | HTTP2 \<Rightarrow> dial_outcome elapsed (in_net (dialHTTP2 e d c addr) w0)
         | _ \<Rightarrow> (Inl (WrapError ErrUnsupportedProxy (ProxyType_string (proxyType d))), w0)))"
  define w0 where "w0 = (if metrics w \<noteq> None then mcall (RecordConnection 0) w else w)"
  have e: "erase w = erase w0" and nd: "nil_deref w0 = nil_deref w"
    by (auto simp: w0_def)
  have F: "HTTPProxyDialer_DialContext e d c network addr elapsed v
      = B (if metrics v \<noteq> None then mcall (RecordConnection 0) v else v)" for v
    by (simp only: HTTPProxyDialer_DialContext_def B_def Let_def tcp_def)
  have body: "fst (B (erase v)) = fst (B v) \<and> snd (B (erase v)) = erase (snd (B v))
      \<and> nil_deref (snd (B v)) = nil_deref v" for v
    by (cases "proxyType d") (simp_all add: B_def)
  have "HTTPProxyDialer_DialContext e d c network addr elapsed (erase w) = B (erase w0)"
    by (simp add: F e)
  moreover have "HTTPProxyDialer_DialContext e d c network addr elapsed w = B w0"
    by (simp only: F w0_def)
  ultimately show ?thesis
    using body [of w0] nd by simp
qed

lemma ProxyDialer_DialContext_erase:
  "fst (ProxyDialer_DialContext e dl c network addr elapsed (erase w))
     = fst (ProxyDialer_DialContext e dl c network addr elapsed w)
   \<and> snd (ProxyDialer_DialContext e dl c network addr elapsed (erase w))
     = erase (snd (ProxyDialer_DialContext e dl c network addr elapsed w))
   \<and> nil_deref (snd (ProxyDialer_DialContext e dl c network addr elapsed w)) = nil_deref w"
  using SocksDialer_DialContext_erase HTTPProxyDialer_DialContext_erase
  by (cases dl) (simp_all add: ProxyDialer_DialContext_def)

lemma guard_ex [simp]:
  "erase (if \<exists>y. metrics w = Some y then mcall f w else w) = erase w"
  "nil_deref (if \<exists>y. metrics w = Some y then mcall f w else w) = nil_deref w"
  "erase (if b \<and> (\<exists>y. metrics w = Some y) then mcall f w else w) = erase w"
  "nil_deref (if b \<and> (\<exists>y. metrics w = Some y) then mcall f w else w) = nil_deref w"
  "erase (if b \<and> metrics w \<noteq> None then mcall f w else w) = erase w"
  "nil_deref (if b \<and> metrics w \<noteq> None then mcall f w else w) = nil_deref w"
  by auto

lemma ProxyManager_DialContext_erase:
  "fst (ProxyManager_DialContext e pm c network addr now elapsed (erase w))
     = fst (ProxyManager_DialContext e pm c network addr now elapsed w)
   \<and> snd (ProxyManager_DialContext e pm c network addr now elapsed (erase w))
     = erase (snd (ProxyManager_DialContext e pm c network addr now elapsed w))
   \<and> nil_deref (snd (ProxyManager_DialContext e pm c network addr now elapsed w)) = nil_deref w"
proof -
  define B where "B = (\<lambda>w0.
      case Get now network addr w0 of
        (Inr (Some cn), w1) \<Rightarrow>
          (Inr \<lparr>Conn = cn, pc_network = network, pc_addr = addr, once = False\<rparr>, w1)
      | (_, w1) \<Rightarrow>
          (case dialer pm of
             None \<Rightarrow> (Inl ErrUnsupportedProxy, w1)
           | Some dl \<Rightarrow>
               (case ProxyDialer_DialContext e dl c network addr elapsed w1 of
                  (Inl err, w2) \<Rightarrow>
                    (Inl err, if metrics w2 \<noteq> None then mcall (RecordFailure err) w2 else w2)
                | (Inr cn, w2) \<Rightarrow>
                    (Inr \<lparr>Conn = cn, pc_network = network, pc_addr = addr, once = False\<rparr>,
                     if MetricsEnable pm \<and> metrics w2 \<noteq> None
                     then mcall (RecordLatency elapsed) w2 else w2))))"
  define w0 where "w0 = (if MetricsEnable pm \<and> metrics w \<noteq> None
                         then mcall (RecordProtocol network) w else w)"
  have e: "erase w = erase w0" and nd: "nil_deref w0 = nil_deref w"
    by (auto simp: w0_def)
  have F: "ProxyManager_DialContext e pm c network addr now elapsed v
      = B (if MetricsEnable pm \<and> metrics v \<noteq> None
           then mcall (RecordProtocol network) v else v)" for v
    by (simp only: ProxyManager_DialContext_def B_def Let_def)
  have body: "fst (B (erase v)) = fst (B v) \<and> snd (B (erase v)) = erase (snd (B v))
      \<and> nil_deref (snd (B v)) = nil_deref v" for v
  proof -
    obtain r1 w1 where g: "Get now network addr v = (r1, w1)"
      by (cases "Get now network addr v")
    have g': "Get now network addr (erase v) = (r1, erase w1)"
      and n1: "nil_deref w1 = nil_deref v"
      using g Get_erase [of now network addr v] Get_nil_deref [of now network addr v]
      by (simp_all add: prod_eq_iff)
    define r2 where "r2 = (\<lambda>dl. fst (ProxyDialer_DialContext e dl c network addr elapsed w1))"
    define w2 where "w2 = (\<lambda>dl. snd (ProxyDialer_DialContext e dl c network addr elapsed w1))"
    have p: "ProxyDialer_DialContext e dl c network addr elapsed w1 = (r2 dl, w2 dl)" for dl
      by (simp add: r2_def w2_def)
    have p': "ProxyDialer_DialContext e dl c network addr elapsed (erase w1)
        = (r2 dl, erase (w2 dl))"
      and n2: "nil_deref (w2 dl) = nil_deref w1" for dl
      using p [of dl] ProxyDialer_DialContext_erase [of e dl c network addr elapsed w1]
      by (simp_all add: prod_eq_iff)
    show ?thesis
    proof (cases "\<exists>cn. r1 = Inr (Some cn)")
      case True
      then show ?thesis
        using g g' n1 by (auto simp: B_def)
    next
      case False
      then have r1: "r1 = Inr None \<or> (\<exists>err. r1 = Inl err)"
        by (cases r1) auto
      show ?thesis
      proof (cases "dialer pm")
        case None
        then show ?thesis
          using g g' n1 r1 by (auto simp: B_def)
      next
        case (Some dl)
        show ?thesis
        proof (cases "r2 dl")
          case (Inl err)
          then show ?thesis
            using g g' n1 n2 [of dl] r1 Some p [of dl] p' [of dl] by (auto simp: B_def)
        next
          case (Inr cn)
          then show ?thesis
            using g g' n1 n2 [of dl] r1 Some p [of dl] p' [of dl] by (auto simp: B_def)
        qed
      qed
    qed
  qed
  have "ProxyManager_DialContext e pm c network addr now elapsed (erase w) = B (erase w0)"
    by (simp add: F e)
  moreover have "ProxyManager_DialContext e pm c network addr now elapsed w = B w0"
    by (simp only: F w0_def)
  ultimately show ?thesis
    using body [of w0] nd by simp
qed

lemma erase_absent: "erase (w\<lparr>metrics := m\<rparr>) = w\<lparr>metrics := None\<rparr>"
  by (simp add: erase_def)

text \<open>
  C9. Each operation of the pool and of the dialers, run with no collector, returns the
  result it returns with a collector, whatever the input: \<open>Get\<close>, \<open>Put\<close>, the
  \<open>DialContext\<close> of the HTTP dialer, of the SOCKS dialer and of the manager (with any
  dialer behind it). The two runs end in the same state but for the collector, and the
  run with no collector calls no method through the nil pointer.
\<close>

theorem nil_metrics_same_outcome:
  "fst (Get now network addr (w\<lparr>metrics := None\<rparr>))
     = fst (Get now network addr (w\<lparr>metrics := Some mc\<rparr>))
   \<and> snd (Get now network addr (w\<lparr>metrics := None\<rparr>))
     = erase (snd (Get now network addr (w\<lparr>metrics := Some mc\<rparr>)))
   \<and> nil_deref (snd (Get now network addr (w\<lparr>metrics := None\<rparr>))) = nil_deref w
   \<and> Put now network addr cn (w\<lparr>metrics := None\<rparr>)
     = erase (Put now network addr cn (w\<lparr>metrics := Some mc\<rparr>))
   \<and> nil_deref (Put now network addr cn (w\<lparr>metrics := None\<rparr>)) = nil_deref w
   \<and> fst (HTTPProxyDialer_DialContext e hdl c network addr elapsed (w\<lparr>metrics := None\<rparr>))
     = fst (HTTPProxyDialer_DialContext e hdl c network addr elapsed (w\<lparr>metrics := Some mc\<rparr>))
   \<and> snd (HTTPProxyDialer_DialContext e hdl c network addr elapsed (w\<lparr>metrics := None\<rparr>))
     = erase (snd (HTTPProxyDialer_DialContext e hdl c network addr elapsed
         (w\<lparr>metrics := Some mc\<rparr>)))
   \<and> nil_deref (snd (HTTPProxyDialer_DialContext e hdl c network addr elapsed
         (w\<lparr>metrics := None\<rparr>))) = nil_deref w
   \<and> fst (SocksDialer_DialContext e sdl c network addr elapsed (w\<lparr>metrics := None\<rparr>))
     = fst (SocksDialer_DialContext e sdl c network addr elapsed (w\<lparr>metrics := Some mc\<rparr>))
   \<and> snd (SocksDialer_DialContext e sdl c network addr elapsed (w\<lparr>metrics := None\<rparr>))
     = erase (snd (SocksDialer_DialContext e sdl c network addr elapsed
         (w\<lparr>metrics := Some mc\<rparr>)))
   \<and> nil_deref (snd (SocksDialer_DialContext e sdl c network addr elapsed
         (w\<lparr>metrics := None\<rparr>))) = nil_deref w
   \<and> fst (ProxyManager_DialContext e pm c network addr now elapsed (w\<lparr>metrics := None\<rparr>))
     = fst (ProxyManager_DialContext e pm c network addr now elapsed (w\<lparr>metrics := Some mc\<rparr>))
   \<and> snd (ProxyManager_DialContext e pm c network addr now elapsed (w\<lparr>metrics := None\<rparr>))
     = erase (snd (ProxyManager_DialContext e pm c network addr now elapsed
         (w\<lparr>metrics := Some mc\<rparr>)))
   \<and> nil_deref (snd (ProxyManager_DialContext e pm c network addr now elapsed
         (w\<lparr>metrics := None\<rparr>))) = nil_deref w"
proof -
  let ?w = "w\<lparr>metrics := Some mc\<rparr>" and ?v = "w\<lparr>metrics := None\<rparr>"
  have e: "erase ?w = ?v" and e': "erase ?v = ?v" and n: "nil_deref ?v = nil_deref w"
    by (simp_all add: erase_def)
  have 1: "fst (Get now network addr ?v) = fst (Get now network addr ?w)"
    "snd (Get now network addr ?v) = erase (snd (Get now network addr ?w))"
    "nil_deref (snd (Get now network addr ?v)) = nil_deref w"
    using Get_erase [of now network addr ?w] Get_nil_deref [of now network addr ?v]
    by (simp_all only: e n)
  have 2: "Put now network addr cn ?v = erase (Put now network addr cn ?w)"
    "nil_deref (Put now network addr cn ?v) = nil_deref w"
    using Put_erase [of now network addr cn ?w] Put_nil_deref [of now network addr cn ?v]
    by (simp_all only: e n)
  have 3: "fst (HTTPProxyDialer_DialContext e hdl c network addr elapsed ?v)
      = fst (HTTPProxyDialer_DialContext e hdl c network addr elapsed ?w)"
    "snd (HTTPProxyDialer_DialContext e hdl c network addr elapsed ?v)
      = erase (snd (HTTPProxyDialer_DialContext e hdl c network addr elapsed ?w))"
    "nil_deref (snd (HTTPProxyDialer_DialContext e hdl c network addr elapsed ?v)) = nil_deref w"
    using HTTPProxyDialer_DialContext_erase [of e hdl c network addr elapsed ?w]
      HTTPProxyDialer_DialContext_erase [of e hdl c network addr elapsed ?v]
    by (simp_all only: e e' n)
  have 4: "fst (SocksDialer_DialContext e sdl c network addr elapsed ?v)
      = fst (SocksDialer_DialContext e sdl c network addr elapsed ?w)"
    "snd (SocksDialer_DialContext e sdl c network addr elapsed ?v)
      = erase (snd (SocksDialer_DialContext e sdl c network addr elapsed ?w))"
    "nil_deref (snd (SocksDialer_DialContext e sdl c network addr elapsed ?v)) = nil_deref w"
    using SocksDialer_DialContext_erase [of e sdl c network addr elapsed ?w]
      SocksDialer_DialContext_erase [of e sdl c network addr elapsed ?v]
    by (simp_all only: e e' n)
  have 5: "fst (ProxyManager_DialContext e pm c network addr now elapsed ?v)
      = fst (ProxyManager_DialContext e pm c network addr now elapsed ?w)"
    "snd (ProxyManager_DialContext e pm c network addr now elapsed ?v)
      = erase (snd (ProxyManager_DialContext e pm c network addr now elapsed ?w))"
    "nil_deref (snd (ProxyManager_DialContext e pm c network addr now elapsed ?v)) = nil_deref w"
    using ProxyManager_DialContext_erase [of e pm c network addr now elapsed ?w]
      ProxyManager_DialContext_erase [of e pm c network addr now elapsed ?v]
    by (simp_all only: e e' n)
  show ?thesis
    by (intro conjI 1 2 3 4 5)
qed

end
